theory Spec2Isabelle
  imports Main "HOL-Library.Multiset"
begin

section \<open>Values, documents and responses\<close>

text \<open>
  The gallery backend is one Flask module, \<^verbatim>\<open>app.py\<close>.  Its handlers read and
  write three pieces of state: the per-client Flask session, the two MongoDB
  collections \<^verbatim>\<open>users\<close> and \<^verbatim>\<open>photos\<close>, and the Cloudinary blob store.  Every
  handler is modelled as a function from the session and the world to a result, the
  session afterwards and the world afterwards.

  A BSON object identifier.  The number inside only serves to draw an identifier that a
  collection does not hold yet; its text form and its parser belong to the \<^verbatim>\<open>bson\<close>
  library and are parameters of the model (see \<open>ext\<close> below).
\<close>

datatype objectid = OID nat

text \<open>Python values that occur in documents and in JSON bodies.\<close>

datatype val =
    Str string
  | Bool bool
  | ObjId objectid
  | Time int
  | List "val list"
  | Dict "(string \<times> val) list"

type_synonym dict = "(string \<times> val) list"

text \<open>\<^verbatim>\<open>d[k] = v\<close>: an existing key keeps its place, a new key goes to the end.\<close>

fun dict_set :: "string \<Rightarrow> val \<Rightarrow> dict \<Rightarrow> dict" where
  "dict_set k v [] = [(k, v)]"
| "dict_set k v ((k', v') # d) =
     (if k' = k then (k, v) # d else (k', v') # dict_set k v d)"

text \<open>\<^verbatim>\<open>d.pop(k, None)\<close>: the key is removed when present, nothing is raised otherwise.\<close>

definition dict_pop :: "string \<Rightarrow> dict \<Rightarrow> dict" where
  "dict_pop k d = filter (\<lambda>kv. fst kv \<noteq> k) d"

definition dict_keys :: "dict \<Rightarrow> string set" where
  "dict_keys d = fst ` set d"

record response =
  status :: nat
  body :: val

text \<open>\<^verbatim>\<open>return jsonify(d), code\<close>; a handler that gives no code answers 200.\<close>

definition jsonify :: "dict \<Rightarrow> nat \<Rightarrow> response" where
  "jsonify d code = \<lparr>status = code, body = Dict d\<rparr>"

text \<open>
  An exception that leaves a handler.  Flask answers it with status 500
  (\<open>flask_response\<close>).
\<close>

datatype exn = KeyError string | InvalidId string | LibraryError string

definition flask_response :: "exn + response \<Rightarrow> response" where
  "flask_response r =
     (case r of
        Inl e \<Rightarrow> \<lparr>status = 500, body = Str ''Internal Server Error''\<rparr>
      | Inr resp \<Rightarrow> resp)"

section \<open>Session, stores and collaborators\<close>

text \<open>
  The Flask session is a dictionary in which the module uses the two keys
  \<^verbatim>\<open>user_id\<close> and \<^verbatim>\<open>username\<close>; \<open>None\<close> is an absent key.
\<close>

record session =
  s_user_id :: "string option"
  s_username :: "string option"

definition anonymous :: session where
  "anonymous = \<lparr>s_user_id = None, s_username = None\<rparr>"

text \<open>A document of the \<^verbatim>\<open>users\<close> collection, as \<open>register\<close> writes it.\<close>

record user =
  u_id :: objectid
  u_username :: string
  u_password :: string

text \<open>A document of the \<^verbatim>\<open>photos\<close> collection, as \<open>upload_photo\<close> writes it.\<close>

record photo =
  p_id :: objectid
  p_user_id :: objectid
  p_src :: string
  p_public_id :: string
  p_title :: string
  p_date :: string
  p_uploaded_at :: int

record database =
  users :: "user list"
  photos :: "photo list"

text \<open>
  \<open>db\<close> is the module's global \<^verbatim>\<open>db\<close>: \<open>None\<close> when the connection test at start-up
  failed.  \<open>cloud\<close> is the state of the Cloudinary account, of a type the model does not
  look into.  \<open>static_folder\<close> maps the paths under the static folder to file contents.
\<close>

record 'c world =
  db :: "database option"
  cloud :: 'c
  static_folder :: "string \<Rightarrow> string option"

record file_storage =
  filename :: string
  content :: string

record upload_result =
  secure_url :: string
  public_id :: string

text \<open>
  The libraries the module calls, as parameters.
  \<^item> \<open>ObjectId\<close> is \<^verbatim>\<open>bson.objectid.ObjectId(s)\<close>: \<open>Inl msg\<close> when it raises
    \<^verbatim>\<open>InvalidId\<close>; \<open>str_ObjectId\<close> is \<^verbatim>\<open>str(oid)\<close>.
  \<^item> \<open>generate_password_hash\<close> and \<open>check_password_hash\<close> are the \<^verbatim>\<open>flask_bcrypt\<close>
    calls.  Both may raise (\<open>Inl msg\<close>, with the text of the exception): bcrypt refuses
    some passwords.  The second receives the request's password as it came, possibly
    absent.
  \<^item> \<open>uploader_upload\<close> and \<open>uploader_destroy\<close> are the Cloudinary calls on the blob
    store's state: \<open>Inl msg\<close> when the call raises with text \<open>msg\<close>.
  \<^item> \<open>now_date\<close> is \<^verbatim>\<open>datetime.now().strftime("%Y-%m-%d")\<close>, \<open>utcnow\<close> is
    \<^verbatim>\<open>datetime.utcnow()\<close> as a number.
\<close>

record 'c ext =
  ObjectId :: "string \<Rightarrow> string + objectid"
  str_ObjectId :: "objectid \<Rightarrow> string"
  generate_password_hash :: "string \<Rightarrow> string + string"
  check_password_hash :: "string \<Rightarrow> string option \<Rightarrow> string + bool"
  uploader_upload :: "'c \<Rightarrow> file_storage \<Rightarrow> string \<Rightarrow> (string + upload_result) \<times> 'c"
  uploader_destroy :: "'c \<Rightarrow> string \<Rightarrow> (string + unit) \<times> 'c"
  now_date :: string
  utcnow :: int

type_synonym 'c result = "(exn + response) \<times> session \<times> 'c world"
type_synonym 'c handler = "session \<Rightarrow> 'c world \<Rightarrow> 'c result"

subsection \<open>Collection operations\<close>

text \<open>
  \<^verbatim>\<open>insert_one\<close> gives the new document an \<^verbatim>\<open>_id\<close> that the collection does not hold:
  here the successor of the largest number in use.
\<close>

definition new_ObjectId :: "objectid list \<Rightarrow> objectid" where
  "new_ObjectId ids = OID (Suc (foldr max (map (\<lambda>i. case i of OID n \<Rightarrow> n) ids) 0))"

text \<open>\<^verbatim>\<open>users_collection.find_one({"username": username})\<close>; no document has a null name.\<close>

definition find_one_user :: "user list \<Rightarrow> string option \<Rightarrow> user option" where
  "find_one_user us name =
     (case name of
        None \<Rightarrow> None
      | Some n \<Rightarrow> find (\<lambda>u. u_username u = n) us)"

text \<open>\<^verbatim>\<open>photos_collection.find_one({"_id": pid, "user_id": uid})\<close>.\<close>

definition find_one_photo :: "photo list \<Rightarrow> objectid \<Rightarrow> objectid \<Rightarrow> photo option" where
  "find_one_photo ps pid uid = find (\<lambda>p. p_id p = pid \<and> p_user_id p = uid) ps"

text \<open>
  \<^verbatim>\<open>photos_collection.find({"user_id": uid}).sort("uploaded_at", -1)\<close>: the documents of
  the owner, the latest first.
\<close>

definition find_photos_sorted :: "photo list \<Rightarrow> objectid \<Rightarrow> photo list" where
  "find_photos_sorted ps uid =
     sort_key (\<lambda>p. - p_uploaded_at p) (filter (\<lambda>p. p_user_id p = uid) ps)"

text \<open>\<^verbatim>\<open>delete_one\<close>: the first matching document goes.\<close>

fun delete_one :: "('a \<Rightarrow> bool) \<Rightarrow> 'a list \<Rightarrow> 'a list" where
  "delete_one P [] = []"
| "delete_one P (x # xs) = (if P x then xs else x # delete_one P xs)"

text \<open>A photo document as the driver hands it to Python, \<^verbatim>\<open>_id\<close> first.\<close>

definition photo_doc :: "photo \<Rightarrow> dict" where
  "photo_doc p =
     [(''_id'', ObjId (p_id p)),
      (''user_id'', ObjId (p_user_id p)),
      (''src'', Str (p_src p)),
      (''public_id'', Str (p_public_id p)),
      (''title'', Str (p_title p)),
      (''date'', Str (p_date p)),
      (''uploaded_at'', Time (p_uploaded_at p))]"

section \<open>The handlers\<close>

subsection \<open>The login-required decorator\<close>

definition unauthorized :: response where
  "unauthorized =
     jsonify [(''success'', Bool False), (''message'', Str ''Unauthorized. Please log in.'')] 401"

definition login_required :: "'c handler \<Rightarrow> 'c handler" where
  "login_required f s w =
     (if s_user_id s = None then (Inr unauthorized, s, w) else f s w)"

definition database_error :: response where
  "database_error = jsonify [(''success'', Bool False), (''message'', Str ''Database Error'')] 500"

subsection \<open>Authentication routes\<close>

text \<open>The JSON body of \<^verbatim>\<open>/api/register\<close> and \<^verbatim>\<open>/api/login\<close>: an object whose two fields,
  when present, are strings.\<close>

record credentials =
  j_username :: "string option"
  j_password :: "string option"

definition validation_error :: response where
  "validation_error =
     jsonify [(''success'', Bool False), (''message'', Str ''Username and password are required.'')] 400"

definition conflict_error :: response where
  "conflict_error =
     jsonify [(''success'', Bool False), (''message'', Str ''Username already exists.'')] 409"

definition register_ok :: response where
  "register_ok =
     jsonify [(''success'', Bool True), (''message'', Str ''Registration successful! Login now.'')] 200"

text \<open>\<^verbatim>\<open>not v\<close> for a field that is absent or a string.\<close>

definition py_not :: "string option \<Rightarrow> bool" where
  "py_not v = (case v of None \<Rightarrow> True | Some t \<Rightarrow> t = [])"

text \<open>
  The call of \<^verbatim>\<open>bcrypt.generate_password_hash\<close> stands in no \<^verbatim>\<open>try\<close> block: when it
  raises, the exception leaves the handler before \<^verbatim>\<open>insert_one\<close>.
\<close>

definition register :: "'c ext \<Rightarrow> credentials \<Rightarrow> 'c handler" where
  "register x data s w =
     (case db w of
        None \<Rightarrow> (Inr database_error, s, w)
      | Some d \<Rightarrow>
          if py_not (j_username data) \<or> py_not (j_password data)
          then (Inr validation_error, s, w)
          else
            (case (j_username data, j_password data) of
               (Some username, Some password) \<Rightarrow>
                 (case find_one_user (users d) (Some username) of
                    Some u \<Rightarrow> (Inr conflict_error, s, w)
                  | None \<Rightarrow>
                      (case generate_password_hash x password of
                         Inl msg \<Rightarrow> (Inl (LibraryError msg), s, w)
                       | Inr hashed_password \<Rightarrow>
                           let new_user = \<lparr>u_id = new_ObjectId (map u_id (users d)),
                                           u_username = username,
                                           u_password = hashed_password\<rparr>
                           in (Inr register_ok, s,
                               w\<lparr>db := Some (d\<lparr>users := users d @ [new_user]\<rparr>)\<rparr>)))
             | _ \<Rightarrow> (Inr validation_error, s, w)))"

definition auth_error :: response where
  "auth_error =
     jsonify [(''success'', Bool False), (''message'', Str ''Invalid username or password.'')] 401"

definition login_ok :: "string \<Rightarrow> response" where
  "login_ok name =
     jsonify [(''success'', Bool True), (''message'', Str ''Login successful.''),
              (''username'', Str name)] 200"

definition login :: "'c ext \<Rightarrow> credentials \<Rightarrow> 'c handler" where
  "login x data s w =
     (case db w of
        None \<Rightarrow> (Inr database_error, s, w)
      | Some d \<Rightarrow>
          (case find_one_user (users d) (j_username data) of
             None \<Rightarrow> (Inr auth_error, s, w)
           | Some u \<Rightarrow>
               (case check_password_hash x (u_password u) (j_password data) of
                  Inl msg \<Rightarrow> (Inl (LibraryError msg), s, w)
                | Inr True \<Rightarrow>
                    (Inr (login_ok (u_username u)),
                     s\<lparr>s_user_id := Some (str_ObjectId x (u_id u)),
                       s_username := Some (u_username u)\<rparr>,
                     w)
                | Inr False \<Rightarrow> (Inr auth_error, s, w))))"

definition logout :: "'c handler" where
  "logout s w =
     (Inr (jsonify [(''success'', Bool True), (''message'', Str ''Logout successful.'')] 200),
      s\<lparr>s_user_id := None, s_username := None\<rparr>, w)"

text \<open>\<^verbatim>\<open>session['username']\<close> raises \<^verbatim>\<open>KeyError\<close> when the key is absent.\<close>

definition get_status :: "'c handler" where
  "get_status s w =
     (case s_user_id s of
        None \<Rightarrow> (Inr (jsonify [(''isLoggedIn'', Bool False)] 200), s, w)
      | Some uid \<Rightarrow>
          (case s_username s of
             None \<Rightarrow> (Inl (KeyError ''username''), s, w)
           | Some name \<Rightarrow>
               (Inr (jsonify [(''isLoggedIn'', Bool True), (''username'', Str name)] 200), s, w)))"

subsection \<open>Photo routes\<close>

definition no_photo_file :: response where
  "no_photo_file =
     jsonify [(''success'', Bool False), (''message'', Str ''No photo file provided.'')] 400"

definition no_selected_file :: response where
  "no_selected_file =
     jsonify [(''success'', Bool False), (''message'', Str ''No selected file.'')] 400"

definition cloud_upload_failed :: "string \<Rightarrow> response" where
  "cloud_upload_failed msg =
     jsonify [(''success'', Bool False), (''message'', Str (''Cloud Upload Failed: '' @ msg))] 500"

text \<open>
  The dictionary that \<open>upload_photo\<close> sends back: the literal \<^verbatim>\<open>new_photo\<close>, to which
  \<^verbatim>\<open>insert_one\<close> adds the key \<^verbatim>\<open>_id\<close>, then the four statements that turn the
  identifier into text and pop the internal fields.
\<close>

definition uploaded_photo_view :: "'c ext \<Rightarrow> photo \<Rightarrow> dict" where
  "uploaded_photo_view x p =
     (let new_photo =
            [(''user_id'', ObjId (p_user_id p)),
             (''src'', Str (p_src p)),
             (''public_id'', Str (p_public_id p)),
             (''title'', Str (p_title p)),
             (''date'', Str (p_date p)),
             (''uploaded_at'', Time (p_uploaded_at p))];
          new_photo = dict_set ''_id'' (ObjId (p_id p)) new_photo;
          new_photo = dict_set ''_id'' (Str (str_ObjectId x (p_id p))) new_photo;
          new_photo = dict_pop ''uploaded_at'' new_photo;
          new_photo = dict_pop ''user_id'' new_photo;
          new_photo = dict_pop ''public_id'' new_photo
      in new_photo)"

definition upload_ok :: "dict \<Rightarrow> response" where
  "upload_ok view =
     jsonify [(''success'', Bool True), (''message'', Str ''Photo uploaded successfully.''),
              (''photo'', Dict view)] 200"

text \<open>
  \<open>files\<close> is \<^verbatim>\<open>request.files.get('photo')\<close>.  The \<^verbatim>\<open>print\<close> that opens the \<^verbatim>\<open>try\<close>
  block reads \<^verbatim>\<open>session['username']\<close>; when the key is absent the \<^verbatim>\<open>KeyError\<close> is
  caught, the \<^verbatim>\<open>print\<close> of the \<^verbatim>\<open>except\<close> block raises it again, and it leaves the
  handler.  \<^verbatim>\<open>ObjectId(user_id)\<close> is evaluated after the upload and outside the
  \<^verbatim>\<open>try\<close> block.
\<close>

definition upload_photo :: "'c ext \<Rightarrow> file_storage option \<Rightarrow> 'c handler" where
  "upload_photo x files s w =
     (case db w of
        None \<Rightarrow> (Inr database_error, s, w)
      | Some d \<Rightarrow>
          (case files of
             None \<Rightarrow> (Inr no_photo_file, s, w)
           | Some photo_file \<Rightarrow>
               (case s_user_id s of
                  None \<Rightarrow> (Inl (KeyError ''user_id''), s, w)
                | Some user_id \<Rightarrow>
                    if filename photo_file = []
                    then (Inr no_selected_file, s, w)
                    else
                      (case s_username s of
                         None \<Rightarrow> (Inl (KeyError ''username''), s, w)
                       | Some name \<Rightarrow>
                           (case uploader_upload x (cloud w) photo_file
                                   (''cloudgallery_user_'' @ user_id) of
                              (Inl msg, c) \<Rightarrow>
                                (Inr (cloud_upload_failed msg), s, w\<lparr>cloud := c\<rparr>)
                            | (Inr upload_result, c) \<Rightarrow>
                                (case ObjectId x user_id of
                                   Inl msg \<Rightarrow> (Inl (InvalidId msg), s, w\<lparr>cloud := c\<rparr>)
                                 | Inr uid \<Rightarrow>
                                     let stored =
                                           \<lparr>p_id = new_ObjectId (map p_id (photos d)),
                                            p_user_id = uid,
                                            p_src = secure_url upload_result,
                                            p_public_id = public_id upload_result,
                                            p_title = filename photo_file,
                                            p_date = now_date x,
                                            p_uploaded_at = utcnow x\<rparr>
                                     in (Inr (upload_ok (uploaded_photo_view x stored)), s,
                                         w\<lparr>cloud := c,
                                           db := Some (d\<lparr>photos := photos d @ [stored]\<rparr>)\<rparr>)))))))"

text \<open>The body of the loop in \<open>get_photos\<close>, on one document of the cursor.\<close>

definition photo_view :: "'c ext \<Rightarrow> photo \<Rightarrow> dict" where
  "photo_view x p =
     (let photo = photo_doc p;
          photo = dict_set ''_id'' (Str (str_ObjectId x (p_id p))) photo;
          photo = dict_pop ''user_id'' photo;
          photo = dict_pop ''uploaded_at'' photo;
          photo = dict_pop ''public_id'' photo
      in photo)"

definition photos_ok :: "dict list \<Rightarrow> response" where
  "photos_ok photos_list =
     jsonify [(''success'', Bool True), (''photos'', List (map Dict photos_list))] 200"

definition get_photos :: "'c ext \<Rightarrow> 'c handler" where
  "get_photos x s w =
     (case db w of
        None \<Rightarrow> (Inr database_error, s, w)
      | Some d \<Rightarrow>
          (case s_user_id s of
             None \<Rightarrow> (Inl (KeyError ''user_id''), s, w)
           | Some user_id \<Rightarrow>
               (case ObjectId x user_id of
                  Inl msg \<Rightarrow> (Inl (InvalidId msg), s, w)
                | Inr uid \<Rightarrow>
                    let photos_list = map (photo_view x) (find_photos_sorted (photos d) uid)
                    in (case s_username s of
                          None \<Rightarrow> (Inl (KeyError ''username''), s, w)
                        | Some name \<Rightarrow> (Inr (photos_ok photos_list), s, w)))))"

definition not_found_or_unauthorized :: response where
  "not_found_or_unauthorized =
     jsonify [(''success'', Bool False),
              (''message'', Str ''Photo not found or unauthorized to delete.'')] 404"

definition delete_ok :: response where
  "delete_ok =
     jsonify [(''success'', Bool True), (''message'', Str ''Photo deleted successfully.'')] 200"

definition deletion_failed :: "string \<Rightarrow> response" where
  "deletion_failed msg =
     jsonify [(''success'', Bool False), (''message'', Str (''Deletion failed: '' @ msg))] 500"

text \<open>
  The \<^verbatim>\<open>try\<close> block of \<open>delete_photo\<close>: \<open>Inl msg\<close> is an exception with text \<open>msg\<close>,
  \<open>Inr r\<close> a \<^verbatim>\<open>return\<close>.  The query dictionary evaluates \<^verbatim>\<open>ObjectId(photo_id)\<close> before
  \<^verbatim>\<open>ObjectId(user_id)\<close>.
\<close>

definition delete_photo_try ::
  "'c ext \<Rightarrow> string \<Rightarrow> string \<Rightarrow> session \<Rightarrow> database \<Rightarrow> 'c world
     \<Rightarrow> (string + response) \<times> 'c world" where
  "delete_photo_try x photo_id user_id s d w =
     (case ObjectId x photo_id of
        Inl msg \<Rightarrow> (Inl msg, w)
      | Inr pid \<Rightarrow>
          (case ObjectId x user_id of
             Inl msg \<Rightarrow> (Inl msg, w)
           | Inr uid \<Rightarrow>
               (case find_one_photo (photos d) pid uid of
                  None \<Rightarrow> (Inr not_found_or_unauthorized, w)
                | Some photo_obj \<Rightarrow>
                    (case s_username s of
                       None \<Rightarrow> (Inl ''username'', w)
                     | Some name \<Rightarrow>
                         (case uploader_destroy x (cloud w) (p_public_id photo_obj) of
                            (Inl msg, c) \<Rightarrow> (Inl msg, w\<lparr>cloud := c\<rparr>)
                          | (Inr u, c) \<Rightarrow>
                              (Inr delete_ok,
                               w\<lparr>cloud := c,
                                 db := Some (d\<lparr>photos :=
                                   delete_one (\<lambda>p. p_id p = pid) (photos d)\<rparr>)\<rparr>))))))"

text \<open>
  The \<^verbatim>\<open>except Exception\<close> block prints \<^verbatim>\<open>session['username']\<close> before it returns
  the 500 response.
\<close>

definition delete_photo :: "'c ext \<Rightarrow> string \<Rightarrow> 'c handler" where
  "delete_photo x photo_id s w =
     (case db w of
        None \<Rightarrow> (Inr database_error, s, w)
      | Some d \<Rightarrow>
          (case s_user_id s of
             None \<Rightarrow> (Inl (KeyError ''user_id''), s, w)
           | Some user_id \<Rightarrow>
               (case delete_photo_try x photo_id user_id s d w of
                  (Inr r, w') \<Rightarrow> (Inr r, s, w')
                | (Inl msg, w') \<Rightarrow>
                    (case s_username s of
                       None \<Rightarrow> (Inl (KeyError ''username''), s, w')
                     | Some name \<Rightarrow> (Inr (deletion_failed msg), s, w')))))"

subsection \<open>Static file routes\<close>

text \<open>\<^verbatim>\<open>send_from_directory\<close> answers a missing file with 404.\<close>

definition send_from_directory :: "string \<Rightarrow> 'c handler" where
  "send_from_directory path s w =
     (case static_folder w path of
        None \<Rightarrow> (Inr \<lparr>status = 404, body = Str ''Not Found''\<rparr>, s, w)
      | Some text \<Rightarrow> (Inr \<lparr>status = 200, body = Str text\<rparr>, s, w))"

definition index :: "'c handler" where
  "index = send_from_directory ''index.html''"

definition serve_static :: "string \<Rightarrow> 'c handler" where
  "serve_static path = send_from_directory path"

subsection \<open>The route table\<close>

datatype request =
    Register credentials
  | Login credentials
  | Logout
  | Status
  | Upload "file_storage option"
  | GetPhotos
  | DeletePhoto string
  | Index
  | Static string

text \<open>Each route with the decorators it carries in the module.\<close>

fun dispatch :: "'c ext \<Rightarrow> request \<Rightarrow> 'c handler" where
  "dispatch x (Register data) = register x data"
| "dispatch x (Login data) = login x data"
| "dispatch x Logout = login_required logout"
| "dispatch x Status = get_status"
| "dispatch x (Upload files) = login_required (upload_photo x files)"
| "dispatch x GetPhotos = login_required (get_photos x)"
| "dispatch x (DeletePhoto photo_id) = login_required (delete_photo x photo_id)"
| "dispatch x Index = index"
| "dispatch x (Static path) = serve_static path"

text \<open>
  The session of one client after a sequence of its requests.  Each request meets the
  libraries' behaviour and the world of its moment: other clients change the world in
  between.
\<close>

fun session_after :: "('c ext \<times> request \<times> 'c world) list \<Rightarrow> session \<Rightarrow> session" where
  "session_after [] s = s"
| "session_after ((x, r, w) # rs) s = session_after rs (fst (snd (dispatch x r s w)))"

section \<open>A concrete environment\<close>

text \<open>
  One behaviour of the libraries, for running the handlers on concrete requests: object
  identifiers written as 24 hexadecimal digits, a stand-in for the password hash that,
  like bcrypt 5, refuses a password of more than 72 bytes (and, in the check, an absent
  one), and a blob store that is a list of public identifiers and contents together with
  a flag saying whether the service answers.
\<close>

definition hex_digit :: "char \<Rightarrow> nat option" where
  "hex_digit c =
     (let n = (of_char c :: nat)
      in if 48 \<le> n \<and> n \<le> 57 then Some (n - 48)
         else if 97 \<le> n \<and> n \<le> 102 then Some (n - 87)
         else if 65 \<le> n \<and> n \<le> 70 then Some (n - 55)
         else None)"

fun hex_value :: "string \<Rightarrow> nat \<Rightarrow> nat option" where
  "hex_value [] acc = Some acc"
| "hex_value (c # cs) acc =
     (case hex_digit c of
        None \<Rightarrow> None
      | Some v \<Rightarrow> hex_value cs (16 * acc + v))"

definition invalid_id :: "string \<Rightarrow> string" where
  "invalid_id t =
     [CHR 0x27] @ t @ [CHR 0x27] @
     '' is not a valid ObjectId, it must be a 12-byte input or a 24-character hex string''"

definition demo_ObjectId :: "string \<Rightarrow> string + objectid" where
  "demo_ObjectId t =
     (if length t = 24
      then (case hex_value t 0 of
              None \<Rightarrow> Inl (invalid_id t)
            | Some n \<Rightarrow> Inr (OID n))
      else Inl (invalid_id t))"

fun to_hex :: "nat \<Rightarrow> nat \<Rightarrow> string" where
  "to_hex 0 n = []"
| "to_hex (Suc k) n = to_hex k (n div 16) @ [''0123456789abcdef'' ! (n mod 16)]"

definition demo_str_ObjectId :: "objectid \<Rightarrow> string" where
  "demo_str_ObjectId i = (case i of OID n \<Rightarrow> to_hex 24 n)"

type_synonym demo_cloud = "bool \<times> (string \<times> string) list"

definition demo_upload ::
  "demo_cloud \<Rightarrow> file_storage \<Rightarrow> string \<Rightarrow> (string + upload_result) \<times> demo_cloud" where
  "demo_upload c f folder =
     (if fst c
      then (Inr \<lparr>secure_url = ''https://res.cloudinary.com/demo/'' @ folder @ ''/'' @ filename f,
                public_id = folder @ ''/'' @ filename f\<rparr>,
            (True, snd c @ [(folder @ ''/'' @ filename f, content f)]))
      else (Inl ''Network is unreachable'', c))"

definition demo_destroy :: "demo_cloud \<Rightarrow> string \<Rightarrow> (string + unit) \<times> demo_cloud" where
  "demo_destroy c pid =
     (if fst c
      then (Inr (), (True, filter (\<lambda>b. fst b \<noteq> pid) (snd c)))
      else (Inl ''Network is unreachable'', c))"

definition too_long :: string where
  "too_long = ''password cannot be longer than 72 bytes, truncate manually if necessary''"

definition demo_generate_password_hash :: "string \<Rightarrow> string + string" where
  "demo_generate_password_hash p =
     (if 72 < length p then Inl too_long else Inr (''$2b$12$'' @ rev p))"

definition demo_check_password_hash :: "string \<Rightarrow> string option \<Rightarrow> string + bool" where
  "demo_check_password_hash h p =
     (case p of
        None \<Rightarrow> Inl ''TypeError''
      | Some q \<Rightarrow> if 72 < length q then Inl too_long else Inr (h = ''$2b$12$'' @ rev q))"

definition demo_ext :: "demo_cloud ext" where
  "demo_ext =
     \<lparr>ObjectId = demo_ObjectId,
      str_ObjectId = demo_str_ObjectId,
      generate_password_hash = demo_generate_password_hash,
      check_password_hash = demo_check_password_hash,
      uploader_upload = demo_upload,
      uploader_destroy = demo_destroy,
      now_date = ''2024-05-01'',
      utcnow = 1714568400\<rparr>"

text \<open>Two users, alice (identifier 10) and bob (identifier 11); alice owns two photos.\<close>

definition alice :: user where
  "alice = \<lparr>u_id = OID 10, u_username = ''alice'', u_password = ''$2b$12$1wp''\<rparr>"

definition bob :: user where
  "bob = \<lparr>u_id = OID 11, u_username = ''bob'', u_password = ''$2b$12$2wp''\<rparr>"

definition photo1 :: photo where
  "photo1 =
     \<lparr>p_id = OID 1, p_user_id = OID 10, p_src = ''https://res.cloudinary.com/demo/a1.png'',
      p_public_id = ''cloudgallery_user_00000000000000000000000a/a1'', p_title = ''a1.png'',
      p_date = ''2024-04-01'', p_uploaded_at = 100\<rparr>"

definition photo2 :: photo where
  "photo2 =
     \<lparr>p_id = OID 2, p_user_id = OID 10, p_src = ''https://res.cloudinary.com/demo/a2.png'',
      p_public_id = ''cloudgallery_user_00000000000000000000000a/a2'', p_title = ''a2.png'',
      p_date = ''2024-04-02'', p_uploaded_at = 200\<rparr>"

definition demo_db :: database where
  "demo_db = \<lparr>users = [alice, bob], photos = [photo1, photo2]\<rparr>"

definition demo_world :: "bool \<Rightarrow> demo_cloud world" where
  "demo_world online =
     \<lparr>db = Some demo_db,
      cloud = (online, [(''cloudgallery_user_00000000000000000000000a/a1'', ''PNG1''),
                        (''cloudgallery_user_00000000000000000000000a/a2'', ''PNG2'')]),
      static_folder = (\<lambda>p. if p = ''index.html'' then Some ''<html></html>'' else None)\<rparr>"

definition alice_session :: session where
  "alice_session =
     \<lparr>s_user_id = Some ''00000000000000000000000a'', s_username = Some ''alice''\<rparr>"

definition bob_session :: session where
  "bob_session =
     \<lparr>s_user_id = Some ''00000000000000000000000b'', s_username = Some ''bob''\<rparr>"

text \<open>A session is well formed when a user identifier comes with a user name.\<close>

definition session_ok :: "session \<Rightarrow> bool" where
  "session_ok s = (s_user_id s = None \<or> s_username s \<noteq> None)"

section \<open>Facts about the collections and the concrete environment\<close>

lemma find_SomeD: "find P xs = Some x \<Longrightarrow> x \<in> set xs \<and> P x"
  by (induction xs) (auto split: if_splits)

lemma same_id_same_photo:
  assumes "distinct (map p_id ps)" and "p \<in> set ps" and "q \<in> set ps" and "p_id q = p_id p"
  shows "q = p"
  using assms by (meson distinct_map inj_onD)

lemma find_one_photo_other_owner:
  assumes "distinct (map p_id ps)" and "pa \<in> set ps" and "p_user_id pa \<noteq> b"
  shows "find_one_photo ps (p_id pa) b = None"
proof (cases "find_one_photo ps (p_id pa) b")
  case None
  then show ?thesis .
next
  case (Some q)
  then have "q \<in> set ps" and "p_id q = p_id pa" and "p_user_id q = b"
    using find_SomeD [of _ ps q] by (auto simp: find_one_photo_def)
  with assms show ?thesis
    using same_id_same_photo by blast
qed

lemma find_one_photo_owner:
  assumes "distinct (map p_id ps)" and "p \<in> set ps"
  shows "find_one_photo ps (p_id p) (p_user_id p) = Some p"
proof (cases "find_one_photo ps (p_id p) (p_user_id p)")
  case None
  with assms(2) show ?thesis
    by (auto simp: find_one_photo_def find_None_iff)
next
  case (Some q)
  then have "q \<in> set ps" and "p_id q = p_id p"
    using find_SomeD [of _ ps q] by (auto simp: find_one_photo_def)
  with assms Some show ?thesis
    using same_id_same_photo by blast
qed

lemma login_required_pass:
  "s_user_id s = Some u \<Longrightarrow> login_required f s w = f s w"
  by (simp add: login_required_def)

section \<open>Isolation between users\<close>

text \<open>
  Claim C1.  Let \<open>pa\<close> be a photo record whose owner is not the user \<open>b\<close> of the session
  \<open>sb\<close>.  The list request of \<open>b\<close> answers with the views of the records that
  \<open>find_photos_sorted\<close> selects for \<open>b\<close>: \<open>pa\<close> is not among them, and each of them is
  owned by \<open>b\<close> and carries an identifier other than that of \<open>pa\<close>.  The delete request
  of \<open>b\<close> against the identifier of \<open>pa\<close> answers 404 and returns the session and the
  world (record store and blob store) as they were.  Identifiers are unique in the
  collection, as MongoDB keeps them.
\<close>

theorem isolation_between_users:
  assumes "db w = Some d"
    and "distinct (map p_id (photos d))"
    and "pa \<in> set (photos d)"
    and "s_user_id sb = Some user_id_b"
    and "s_username sb = Some name_b"
    and "ObjectId x user_id_b = Inr b"
    and "p_user_id pa \<noteq> b"
    and "ObjectId x photo_id = Inr (p_id pa)"
  shows "dispatch x GetPhotos sb w =
           (Inr (photos_ok (map (photo_view x) (find_photos_sorted (photos d) b))), sb, w)
       \<and> pa \<notin> set (find_photos_sorted (photos d) b)
       \<and> (\<forall>p \<in> set (find_photos_sorted (photos d) b). p_user_id p = b \<and> p_id p \<noteq> p_id pa)
       \<and> dispatch x (DeletePhoto photo_id) sb w = (Inr not_found_or_unauthorized, sb, w)
       \<and> status not_found_or_unauthorized = 404"
proof -
  have list: "dispatch x GetPhotos sb w =
           (Inr (photos_ok (map (photo_view x) (find_photos_sorted (photos d) b))), sb, w)"
    using assms(1,4,5,6) by (simp add: login_required_def get_photos_def)
  have notin: "pa \<notin> set (find_photos_sorted (photos d) b)"
    using assms(7) by (simp add: find_photos_sorted_def)
  have own: "\<forall>p \<in> set (find_photos_sorted (photos d) b). p_user_id p = b \<and> p_id p \<noteq> p_id pa"
  proof
    fix p assume "p \<in> set (find_photos_sorted (photos d) b)"
    then have p: "p \<in> set (photos d)" "p_user_id p = b"
      by (simp_all add: find_photos_sorted_def)
    with assms(2,3,7) have "p_id p \<noteq> p_id pa"
      using same_id_same_photo by blast
    with p show "p_user_id p = b \<and> p_id p \<noteq> p_id pa" by simp
  qed
  have "find_one_photo (photos d) (p_id pa) b = None"
    using assms(2,3,7) by (rule find_one_photo_other_owner)
  then have del: "dispatch x (DeletePhoto photo_id) sb w = (Inr not_found_or_unauthorized, sb, w)"
    using assms(1,4,6,8) by (simp add: login_required_def delete_photo_def delete_photo_try_def)
  have "status not_found_or_unauthorized = 404"
    by (simp add: not_found_or_unauthorized_def jsonify_def)
  with list notin own del show ?thesis by blast
qed

lemma demo_ids [simp]:
  "demo_ObjectId ''00000000000000000000000a'' = Inr (OID 10)"
  "demo_ObjectId ''00000000000000000000000b'' = Inr (OID 11)"
  "demo_ObjectId ''000000000000000000000001'' = Inr (OID 1)"
  "demo_ObjectId ''000000000000000000000002'' = Inr (OID 2)"
  by (simp_all add: demo_ObjectId_def hex_digit_def)

lemma demo_ext_sel [simp]:
  "ObjectId demo_ext = demo_ObjectId"
  "str_ObjectId demo_ext = demo_str_ObjectId"
  "uploader_upload demo_ext = demo_upload"
  "uploader_destroy demo_ext = demo_destroy"
  "generate_password_hash demo_ext = demo_generate_password_hash"
  "check_password_hash demo_ext = demo_check_password_hash"
  by (simp_all add: demo_ext_def)

lemma demo_world_sel [simp]:
  "db (demo_world b) = Some demo_db"
  "cloud (demo_world b) =
     (b, [(''cloudgallery_user_00000000000000000000000a/a1'', ''PNG1''),
          (''cloudgallery_user_00000000000000000000000a/a2'', ''PNG2'')])"
  by (simp_all add: demo_world_def)

lemma demo_db_sel [simp]:
  "users demo_db = [alice, bob]"
  "photos demo_db = [photo1, photo2]"
  by (simp_all add: demo_db_def)

lemma demo_sessions [simp]:
  "s_user_id alice_session = Some ''00000000000000000000000a''"
  "s_username alice_session = Some ''alice''"
  "s_user_id bob_session = Some ''00000000000000000000000b''"
  "s_username bob_session = Some ''bob''"
  "s_user_id anonymous = None"
  "s_username anonymous = None"
  by (simp_all add: alice_session_def bob_session_def anonymous_def)

lemma demo_photo_ids_distinct: "distinct (map p_id (photos demo_db))"
  by (simp add: photo1_def photo2_def)

theorem isolation_between_users_witness:
  "photo1 \<in> set (photos demo_db)
   \<and> p_user_id photo1 = OID 10
   \<and> dispatch demo_ext GetPhotos bob_session (demo_world True) =
           (Inr (photos_ok []), bob_session, demo_world True)
   \<and> dispatch demo_ext (DeletePhoto ''000000000000000000000001'') bob_session (demo_world True)
       = (Inr not_found_or_unauthorized, bob_session, demo_world True)"
proof -
  have h1: "db (demo_world True) = Some demo_db" by simp
  have h3: "photo1 \<in> set (photos demo_db)" by simp
  have h4: "s_user_id bob_session = Some ''00000000000000000000000b''" by simp
  have h5: "s_username bob_session = Some ''bob''" by simp
  have h6: "ObjectId demo_ext ''00000000000000000000000b'' = Inr (OID 11)" by simp
  have h7: "p_user_id photo1 \<noteq> OID 11" by (simp add: photo1_def)
  have h8: "ObjectId demo_ext ''000000000000000000000001'' = Inr (p_id photo1)"
    by (simp add: photo1_def)
  have none: "find_photos_sorted (photos demo_db) (OID 11) = []"
    by (simp add: find_photos_sorted_def photo1_def photo2_def)
  show ?thesis
    using isolation_between_users [OF h1 demo_photo_ids_distinct h3 h4 h5 h6 h7 h8] none
    by (simp add: photo1_def)
qed

section \<open>The authorization guard\<close>

text \<open>
  Claim C2.  Without a user identifier in the session the decorator answers 401 with its
  fixed message whatever handler it wraps, and returns the session and the world
  untouched; the answer depends on neither.  Among the routes, exactly logout, upload,
  list and delete give that answer; register, login, status and the static routes run
  their own handlers.
\<close>

theorem guard_covers_exactly_protected_routes:
  assumes "s_user_id s = None"
  shows "(\<forall>f. login_required f s w = (Inr unauthorized, s, w))
       \<and> unauthorized =
           \<lparr>status = 401,
            body = Dict [(''success'', Bool False),
                         (''message'', Str ''Unauthorized. Please log in.'')]\<rparr>
       \<and> ((dispatch x r s w = (Inr unauthorized, s, w)) =
            (r = Logout \<or> (\<exists>files. r = Upload files) \<or> r = GetPhotos
             \<or> (\<exists>photo_id. r = DeletePhoto photo_id)))
       \<and> dispatch x (Register data) s w = register x data s w
       \<and> dispatch x (Login data) s w = login x data s w
       \<and> dispatch x Status s w = (Inr (jsonify [(''isLoggedIn'', Bool False)] 200), s, w)
       \<and> dispatch x Index s w = send_from_directory ''index.html'' s w
       \<and> dispatch x (Static path) s w = send_from_directory path s w"
proof -
  have guard: "\<forall>f. login_required f s w = (Inr unauthorized, s, w)"
    using assms by (simp add: login_required_def)
  have reg: "register x c s w \<noteq> (Inr unauthorized, s, w)" for c
    by (auto simp: register_def unauthorized_def database_error_def validation_error_def
        conflict_error_def register_ok_def jsonify_def Let_def split: option.splits sum.splits)
  have log: "login x c s w \<noteq> (Inr unauthorized, s, w)" for c
    by (auto simp: login_def unauthorized_def database_error_def auth_error_def login_ok_def
        jsonify_def split: option.splits sum.splits bool.splits)
  have stat: "get_status s w = (Inr (jsonify [(''isLoggedIn'', Bool False)] 200), s, w)"
    using assms by (simp add: get_status_def)
  have send: "send_from_directory p s w \<noteq> (Inr unauthorized, s, w)" for p
    by (auto simp: send_from_directory_def unauthorized_def jsonify_def split: option.splits)
  have iff: "(dispatch x r s w = (Inr unauthorized, s, w)) =
            (r = Logout \<or> (\<exists>files. r = Upload files) \<or> r = GetPhotos
             \<or> (\<exists>photo_id. r = DeletePhoto photo_id))"
  proof (cases r)
    case (Register c) with reg show ?thesis by simp
  next
    case (Login c) with log show ?thesis by simp
  next
    case Logout with guard show ?thesis by simp
  next
    case Status with stat show ?thesis by (simp add: unauthorized_def jsonify_def)
  next
    case (Upload f) with guard show ?thesis by simp
  next
    case GetPhotos with guard show ?thesis by simp
  next
    case (DeletePhoto i) with guard show ?thesis by simp
  next
    case Index with send show ?thesis by (simp add: index_def)
  next
    case (Static q) with send show ?thesis by (simp add: serve_static_def)
  qed
  have "unauthorized =
           \<lparr>status = 401,
            body = Dict [(''success'', Bool False),
                         (''message'', Str ''Unauthorized. Please log in.'')]\<rparr>"
    by (simp add: unauthorized_def jsonify_def)
  with guard iff stat show ?thesis
    by (simp add: index_def serve_static_def)
qed

theorem guard_covers_exactly_protected_routes_witness:
  "s_user_id anonymous = None
   \<and> dispatch demo_ext (Upload (Some \<lparr>filename = ''c.png'', content = ''PNG3''\<rparr>)) anonymous
        (demo_world True) = (Inr unauthorized, anonymous, demo_world True)
   \<and> dispatch demo_ext Status anonymous (demo_world True)
       = (Inr (jsonify [(''isLoggedIn'', Bool False)] 200), anonymous, demo_world True)"
  using guard_covers_exactly_protected_routes [of anonymous "demo_world True" demo_ext
      "Upload (Some \<lparr>filename = ''c.png'', content = ''PNG3''\<rparr>)"]
  by (simp add: anonymous_def)

section \<open>Login failures\<close>

text \<open>
  When the user name is absent from the credential store, or the user is found and the
  hash check returns false, login answers with the same response: status 401 and the
  message \<^verbatim>\<open>Invalid username or password.\<close>; session and world are unchanged.
\<close>

lemma login_rejections_same_response:
  assumes "db w = Some d"
    and "find_one_user (users d) (j_username data) = None
         \<or> (\<exists>u. find_one_user (users d) (j_username data) = Some u
                \<and> check_password_hash x (u_password u) (j_password data) = Inr False)"
  shows "dispatch x (Login data) s w =
           (Inr \<lparr>status = 401,
                 body = Dict [(''success'', Bool False),
                              (''message'', Str ''Invalid username or password.'')]\<rparr>, s, w)"
  using assms by (auto simp: login_def auth_error_def jsonify_def)

text \<open>
  The hash check is called in no \<^verbatim>\<open>try\<close> block and only when the user is found.  When it
  raises, the exception leaves the handler and Flask answers 500.
\<close>

lemma login_check_raises:
  assumes "db w = Some d"
    and "find_one_user (users d) (j_username data) = Some u"
    and "check_password_hash x (u_password u) (j_password data) = Inl msg"
  shows "dispatch x (Login data) s w = (Inl (LibraryError msg), s, w)"
    and "status (flask_response (fst (dispatch x (Login data) s w))) = 500"
  using assms by (simp_all add: login_def flask_response_def)

text \<open>
  Claim C3.  The claim is that a failed login gives the same status and message whether
  the user name is absent or the password does not fit, so that a caller cannot tell
  the two apart.  The handler does not keep it for a password on which the hash check
  raises: the same request body, without a password, is answered 500 for the stored user
  alice and 401 for the absent user mallory.
\<close>

theorem login_tells_stored_user_when_check_raises:
  "dispatch demo_ext (Login \<lparr>j_username = Some ''alice'', j_password = None\<rparr>) anonymous
       (demo_world True)
     = (Inl (LibraryError ''TypeError''), anonymous, demo_world True)
   \<and> status (flask_response (Inl (LibraryError ''TypeError''))) = 500
   \<and> dispatch demo_ext (Login \<lparr>j_username = Some ''mallory'', j_password = None\<rparr>) anonymous
       (demo_world True)
     = (Inr auth_error, anonymous, demo_world True)
   \<and> status auth_error = 401"
proof -
  have 1: "dispatch demo_ext (Login \<lparr>j_username = Some ''alice'', j_password = None\<rparr>) anonymous
       (demo_world True)
     = (Inl (LibraryError ''TypeError''), anonymous, demo_world True)"
    by (simp add: login_def find_one_user_def alice_def demo_check_password_hash_def)
  have 2: "dispatch demo_ext (Login \<lparr>j_username = Some ''mallory'', j_password = None\<rparr>)
       anonymous (demo_world True)
     = (Inr auth_error, anonymous, demo_world True)"
    by (simp add: login_def find_one_user_def alice_def bob_def)
  have 3: "status (flask_response (Inl (LibraryError ''TypeError''))) = 500"
    by (simp add: flask_response_def)
  have 4: "status auth_error = 401"
    by (simp add: auth_error_def jsonify_def)
  from 1 3 2 4 show ?thesis by (intro conjI)
qed

section \<open>Delete when the blob store fails\<close>

text \<open>
  Claim C4.  When the user \<open>p_user_id p\<close> asks to delete the photo \<open>p\<close> it owns and the
  Cloudinary deletion raises with text \<open>msg\<close>, delete answers 500 with the text in its
  message, and the database is the one before: the record of \<open>p\<close> is still there.
\<close>

theorem delete_keeps_record_when_blob_deletion_fails:
  assumes "db w = Some d"
    and "distinct (map p_id (photos d))"
    and "p \<in> set (photos d)"
    and "s_user_id s = Some user_id"
    and "s_username s = Some name"
    and "ObjectId x user_id = Inr (p_user_id p)"
    and "ObjectId x photo_id = Inr (p_id p)"
    and "uploader_destroy x (cloud w) (p_public_id p) = (Inl msg, c)"
  shows "dispatch x (DeletePhoto photo_id) s w =
           (Inr \<lparr>status = 500,
                 body = Dict [(''success'', Bool False),
                              (''message'', Str (''Deletion failed: '' @ msg))]\<rparr>,
            s, w\<lparr>cloud := c\<rparr>)
       \<and> db (w\<lparr>cloud := c\<rparr>) = Some d"
proof -
  have "find_one_photo (photos d) (p_id p) (p_user_id p) = Some p"
    using assms(2,3) by (rule find_one_photo_owner)
  with assms show ?thesis
    by (simp add: login_required_def delete_photo_def delete_photo_try_def deletion_failed_def
        jsonify_def)
qed

theorem delete_keeps_record_when_blob_deletion_fails_witness:
  "photo1 \<in> set (photos demo_db)
   \<and> dispatch demo_ext (DeletePhoto ''000000000000000000000001'') alice_session
        (demo_world False)
      = (Inr (deletion_failed ''Network is unreachable''), alice_session, demo_world False)"
proof -
  have h1: "db (demo_world False) = Some demo_db" by simp
  have h3: "photo1 \<in> set (photos demo_db)" by simp
  have h4: "s_user_id alice_session = Some ''00000000000000000000000a''" by simp
  have h5: "s_username alice_session = Some ''alice''" by simp
  have h6: "ObjectId demo_ext ''00000000000000000000000a'' = Inr (p_user_id photo1)"
    by (simp add: photo1_def)
  have h7: "ObjectId demo_ext ''000000000000000000000001'' = Inr (p_id photo1)"
    by (simp add: photo1_def)
  have h8: "uploader_destroy demo_ext (cloud (demo_world False)) (p_public_id photo1)
              = (Inl ''Network is unreachable'', cloud (demo_world False))"
    by (simp add: demo_destroy_def)
  show ?thesis
    using delete_keeps_record_when_blob_deletion_fails
      [OF h1 demo_photo_ids_distinct h3 h4 h5 h6 h7 h8]
    by (simp add: deletion_failed_def jsonify_def)
qed


section \<open>Failed uploads\<close>

text \<open>
  Claim C5.  An upload request that does not answer 200 leaves the database as it was.
  Without a file the answer is 400, with an empty file name it is 400, and when the
  Cloudinary upload raises with text \<open>msg\<close> it is 500 with the text in its message; in
  the first two cases the world is untouched.
\<close>

theorem failed_upload_creates_no_record:
  "(status (flask_response (fst (dispatch x (Upload files) s w))) \<noteq> 200
      \<longrightarrow> db (snd (snd (dispatch x (Upload files) s w))) = db w)
   \<and> (db w = Some d \<and> s_user_id s = Some user_id \<and> files = None
      \<longrightarrow> dispatch x (Upload files) s w =
            (Inr \<lparr>status = 400,
                  body = Dict [(''success'', Bool False),
                               (''message'', Str ''No photo file provided.'')]\<rparr>, s, w))
   \<and> (db w = Some d \<and> s_user_id s = Some user_id \<and> files = Some f \<and> filename f = []
      \<longrightarrow> dispatch x (Upload files) s w =
            (Inr \<lparr>status = 400,
                  body = Dict [(''success'', Bool False),
                               (''message'', Str ''No selected file.'')]\<rparr>, s, w))
   \<and> (db w = Some d \<and> s_user_id s = Some user_id \<and> s_username s = Some name
        \<and> files = Some f \<and> filename f \<noteq> []
        \<and> uploader_upload x (cloud w) f (''cloudgallery_user_'' @ user_id) = (Inl msg, c)
      \<longrightarrow> dispatch x (Upload files) s w =
            (Inr \<lparr>status = 500,
                  body = Dict [(''success'', Bool False),
                               (''message'', Str (''Cloud Upload Failed: '' @ msg))]\<rparr>,
             s, w\<lparr>cloud := c\<rparr>))"
proof -
  have a: "status (flask_response (fst (dispatch x (Upload files) s w))) \<noteq> 200
      \<longrightarrow> db (snd (snd (dispatch x (Upload files) s w))) = db w"
    by (auto simp: login_required_def upload_photo_def flask_response_def upload_ok_def
        jsonify_def Let_def split: option.splits sum.splits prod.splits)
  have b: "db w = Some d \<and> s_user_id s = Some user_id \<and> files = None
      \<longrightarrow> dispatch x (Upload files) s w =
            (Inr \<lparr>status = 400,
                  body = Dict [(''success'', Bool False),
                               (''message'', Str ''No photo file provided.'')]\<rparr>, s, w)"
    by (simp add: login_required_def upload_photo_def no_photo_file_def jsonify_def)
  have c: "db w = Some d \<and> s_user_id s = Some user_id \<and> files = Some f \<and> filename f = []
      \<longrightarrow> dispatch x (Upload files) s w =
            (Inr \<lparr>status = 400,
                  body = Dict [(''success'', Bool False),
                               (''message'', Str ''No selected file.'')]\<rparr>, s, w)"
    by (simp add: login_required_def upload_photo_def no_selected_file_def jsonify_def)
  have d: "db w = Some d \<and> s_user_id s = Some user_id \<and> s_username s = Some name
        \<and> files = Some f \<and> filename f \<noteq> []
        \<and> uploader_upload x (cloud w) f (''cloudgallery_user_'' @ user_id) = (Inl msg, c)
      \<longrightarrow> dispatch x (Upload files) s w =
            (Inr \<lparr>status = 500,
                  body = Dict [(''success'', Bool False),
                               (''message'', Str (''Cloud Upload Failed: '' @ msg))]\<rparr>,
             s, w\<lparr>cloud := c\<rparr>)"
    by (simp add: login_required_def upload_photo_def cloud_upload_failed_def jsonify_def)
  from a b c d show ?thesis by blast
qed

theorem failed_upload_creates_no_record_witness:
  "dispatch demo_ext (Upload None) alice_session (demo_world True)
     = (Inr no_photo_file, alice_session, demo_world True)
   \<and> dispatch demo_ext (Upload (Some \<lparr>filename = [], content = ''PNG3''\<rparr>)) alice_session
       (demo_world True) = (Inr no_selected_file, alice_session, demo_world True)
   \<and> dispatch demo_ext (Upload (Some \<lparr>filename = ''c.png'', content = ''PNG3''\<rparr>)) alice_session
       (demo_world False)
     = (Inr (cloud_upload_failed ''Network is unreachable''), alice_session, demo_world False)
   \<and> db (snd (snd (dispatch demo_ext (Upload (Some \<lparr>filename = ''c.png'', content = ''PNG3''\<rparr>))
       alice_session (demo_world False)))) = Some demo_db"
proof -
  let ?f = "\<lparr>filename = ''c.png'', content = ''PNG3''\<rparr>"
  let ?e = "\<lparr>filename = [], content = ''PNG3''\<rparr>"
  have up: "uploader_upload demo_ext (cloud (demo_world False)) ?f
              (''cloudgallery_user_'' @ ''00000000000000000000000a'')
            = (Inl ''Network is unreachable'', cloud (demo_world False))"
    by (simp add: demo_upload_def)
  have 1: "dispatch demo_ext (Upload None) alice_session (demo_world True)
     = (Inr no_photo_file, alice_session, demo_world True)"
    using failed_upload_creates_no_record [of demo_ext None alice_session "demo_world True"
        demo_db "''00000000000000000000000a''"]
    by (simp add: no_photo_file_def jsonify_def)
  have 2: "dispatch demo_ext (Upload (Some ?e)) alice_session (demo_world True)
     = (Inr no_selected_file, alice_session, demo_world True)"
    using failed_upload_creates_no_record [of demo_ext "Some ?e" alice_session "demo_world True"
        demo_db "''00000000000000000000000a''" ?e]
    by (simp add: no_selected_file_def jsonify_def)
  have 3: "dispatch demo_ext (Upload (Some ?f)) alice_session (demo_world False)
     = (Inr (cloud_upload_failed ''Network is unreachable''), alice_session, demo_world False)"
    using failed_upload_creates_no_record [of demo_ext "Some ?f" alice_session "demo_world False"
        demo_db "''00000000000000000000000a''" ?f "''alice''" "''Network is unreachable''"
        "cloud (demo_world False)"] up
    by (simp add: cloud_upload_failed_def jsonify_def)
  from 1 2 3 show ?thesis by simp
qed

section \<open>Listing a user's photos\<close>

lemma sorted_newest_first:
  "sorted_wrt (\<lambda>p q. p_uploaded_at q \<le> p_uploaded_at p) (find_photos_sorted ps u)"
proof -
  have "sorted (map (\<lambda>p. - p_uploaded_at p) (find_photos_sorted ps u))"
    by (simp add: find_photos_sorted_def)
  then show ?thesis
    by (simp add: sorted_map)
qed

lemma mset_find_photos_sorted:
  "mset (find_photos_sorted ps u) = filter_mset (\<lambda>p. p_user_id p = u) (mset ps)"
  by (simp add: find_photos_sorted_def)

lemma find_photos_sorted_empty:
  "(\<forall>p \<in> set ps. p_user_id p \<noteq> u) \<Longrightarrow> find_photos_sorted ps u = []"
  by (simp add: find_photos_sorted_def filter_empty_conv)

lemma photo_view_fields:
  "photo_view x p =
     [(''_id'', Str (str_ObjectId x (p_id p))),
      (''src'', Str (p_src p)),
      (''title'', Str (p_title p)),
      (''date'', Str (p_date p))]"
  by (simp add: photo_view_def photo_doc_def dict_pop_def)

text \<open>
  Claim C6.  For the user \<open>u\<close> of the session, the list request answers 200 with one
  entry for each record that \<open>find_photos_sorted\<close> returns, in that order; the entry
  carries the record's identifier as text, its source URL, its title and its date.
  The records are exactly those of the collection whose owner is \<open>u\<close>, each as often as
  it is stored; they are in descending order of upload time; and when \<open>u\<close> owns no
  photo the sequence is empty, the answer still being 200.
\<close>

theorem list_returns_own_photos_newest_first:
  assumes "db w = Some d"
    and "s_user_id s = Some user_id"
    and "s_username s = Some name"
    and "ObjectId x user_id = Inr u"
  shows "dispatch x GetPhotos s w =
               (Inr \<lparr>status = 200,
                     body = Dict [(''success'', Bool True),
                                  (''photos'',
                                   List (map (\<lambda>p. Dict [(''_id'', Str (str_ObjectId x (p_id p))),
                                                         (''src'', Str (p_src p)),
                                                         (''title'', Str (p_title p)),
                                                         (''date'', Str (p_date p))])
                                     (find_photos_sorted (photos d) u)))]\<rparr>,
                s, w)
       \<and> mset (find_photos_sorted (photos d) u)
           = filter_mset (\<lambda>p. p_user_id p = u) (mset (photos d))
       \<and> sorted_wrt (\<lambda>p q. p_uploaded_at q \<le> p_uploaded_at p)
           (find_photos_sorted (photos d) u)
       \<and> ((\<forall>p \<in> set (photos d). p_user_id p \<noteq> u)
           \<longrightarrow> find_photos_sorted (photos d) u = [])"
proof (intro conjI)
  show "dispatch x GetPhotos s w =
               (Inr \<lparr>status = 200,
                     body = Dict [(''success'', Bool True),
                                  (''photos'',
                                   List (map (\<lambda>p. Dict [(''_id'', Str (str_ObjectId x (p_id p))),
                                                         (''src'', Str (p_src p)),
                                                         (''title'', Str (p_title p)),
                                                         (''date'', Str (p_date p))])
                                     (find_photos_sorted (photos d) u)))]\<rparr>,
                s, w)"
    using assms
    by (simp add: login_required_def get_photos_def photos_ok_def jsonify_def comp_def
        photo_view_fields)
  show "mset (find_photos_sorted (photos d) u)
          = filter_mset (\<lambda>p. p_user_id p = u) (mset (photos d))"
    by (rule mset_find_photos_sorted)
  show "sorted_wrt (\<lambda>p q. p_uploaded_at q \<le> p_uploaded_at p) (find_photos_sorted (photos d) u)"
    by (rule sorted_newest_first)
  show "(\<forall>p \<in> set (photos d). p_user_id p \<noteq> u) \<longrightarrow> find_photos_sorted (photos d) u = []"
    using find_photos_sorted_empty by blast
qed

lemma demo_find_alice: "find_photos_sorted [photo1, photo2] (OID 10) = [photo2, photo1]"
  by (simp add: find_photos_sorted_def photo1_def photo2_def)

lemma demo_find_bob: "find_photos_sorted [photo1, photo2] (OID 11) = []"
  by (simp add: find_photos_sorted_def photo1_def photo2_def)

lemma demo_str_photo_ids:
  "str_ObjectId demo_ext (p_id photo1) = ''000000000000000000000001''"
  "str_ObjectId demo_ext (p_id photo2) = ''000000000000000000000002''"
  by code_simp+

theorem list_returns_own_photos_newest_first_witness:
  "dispatch demo_ext GetPhotos alice_session (demo_world True) =
     (Inr \<lparr>status = 200,
           body = Dict [(''success'', Bool True),
                        (''photos'',
                         List [Dict [(''_id'', Str ''000000000000000000000002''),
                                     (''src'', Str ''https://res.cloudinary.com/demo/a2.png''),
                                     (''title'', Str ''a2.png''),
                                     (''date'', Str ''2024-04-02'')],
                               Dict [(''_id'', Str ''000000000000000000000001''),
                                     (''src'', Str ''https://res.cloudinary.com/demo/a1.png''),
                                     (''title'', Str ''a1.png''),
                                     (''date'', Str ''2024-04-01'')]])]\<rparr>,
      alice_session, demo_world True)
   \<and> p_uploaded_at photo1 < p_uploaded_at photo2
   \<and> dispatch demo_ext GetPhotos bob_session (demo_world True) =
     (Inr \<lparr>status = 200, body = Dict [(''success'', Bool True), (''photos'', List [])]\<rparr>,
      bob_session, demo_world True)"
proof -
  have h1: "db (demo_world True) = Some demo_db" by simp
  have a: "ObjectId demo_ext ''00000000000000000000000a'' = Inr (OID 10)" by simp
  have b: "ObjectId demo_ext ''00000000000000000000000b'' = Inr (OID 11)" by simp
  note alice_list = list_returns_own_photos_newest_first
      [OF h1 demo_sessions(1) demo_sessions(2) a, THEN conjunct1]
  note bob_list = list_returns_own_photos_newest_first
      [OF h1 demo_sessions(3) demo_sessions(4) b, THEN conjunct1]
  have 1: "dispatch demo_ext GetPhotos alice_session (demo_world True) =
     (Inr \<lparr>status = 200,
           body = Dict [(''success'', Bool True),
                        (''photos'',
                         List [Dict [(''_id'', Str ''000000000000000000000002''),
                                     (''src'', Str ''https://res.cloudinary.com/demo/a2.png''),
                                     (''title'', Str ''a2.png''),
                                     (''date'', Str ''2024-04-02'')],
                               Dict [(''_id'', Str ''000000000000000000000001''),
                                     (''src'', Str ''https://res.cloudinary.com/demo/a1.png''),
                                     (''title'', Str ''a1.png''),
                                     (''date'', Str ''2024-04-01'')]])]\<rparr>,
      alice_session, demo_world True)"
    unfolding alice_list demo_db_sel demo_find_alice list.map demo_str_photo_ids
    by (simp add: photo1_def photo2_def)
  have 2: "dispatch demo_ext GetPhotos bob_session (demo_world True) =
     (Inr \<lparr>status = 200, body = Dict [(''success'', Bool True), (''photos'', List [])]\<rparr>,
      bob_session, demo_world True)"
    unfolding bob_list demo_db_sel demo_find_bob by simp
  have 3: "p_uploaded_at photo1 < p_uploaded_at photo2"
    by (simp add: photo1_def photo2_def)
  from 1 3 2 show ?thesis by (intro conjI)
qed

section \<open>Registration\<close>

lemma le_foldr_max: "n \<in> set ns \<Longrightarrow> n \<le> foldr max ns (0::nat)"
  by (induction ns) (auto simp: max_def)

lemma new_ObjectId_fresh: "new_ObjectId ids \<notin> set ids"
proof
  assume "new_ObjectId ids \<in> set ids"
  then have "Suc (foldr max (map (\<lambda>i. case i of OID n \<Rightarrow> n) ids) 0)
               \<in> set (map (\<lambda>i. case i of OID n \<Rightarrow> n) ids)"
    by (force simp: new_ObjectId_def)
  from le_foldr_max [OF this] show False by simp
qed



lemma demo_new_user_id [simp]: "new_ObjectId [u_id alice, u_id bob] = OID 12"
  by (simp add: new_ObjectId_def alice_def bob_def)


section \<open>Views sent to the client\<close>

lemma dict_keys_photo_view:
  "dict_keys (photo_view x p) = {''_id'', ''src'', ''title'', ''date''}"
  by (auto simp: photo_view_def photo_doc_def dict_pop_def dict_keys_def)

lemma dict_keys_uploaded_photo_view:
  "dict_keys (uploaded_photo_view x p) = {''_id'', ''src'', ''title'', ''date''}"
  by (auto simp: uploaded_photo_view_def dict_pop_def dict_keys_def)

lemma internal_keys_absent:
  "dict_keys v = {''_id'', ''src'', ''title'', ''date''}
   \<Longrightarrow> ''user_id'' \<notin> dict_keys v \<and> ''public_id'' \<notin> dict_keys v \<and> ''uploaded_at'' \<notin> dict_keys v"
  by simp

lemma upload_success_body:
  assumes "dispatch x (Upload files) s w = (Inr r, s', w')" and "status r = 200"
  shows "\<exists>p. body r = Dict [(''success'', Bool True),
                            (''message'', Str ''Photo uploaded successfully.''),
                            (''photo'', Dict (uploaded_photo_view x p))]"
  using assms
  by (auto simp: login_required_def upload_photo_def upload_ok_def jsonify_def Let_def
      unauthorized_def database_error_def no_photo_file_def no_selected_file_def
      cloud_upload_failed_def
      split: option.splits sum.splits prod.splits if_splits)

lemma list_success_body:
  assumes "dispatch x GetPhotos s w = (Inr r, s', w')" and "status r = 200"
  shows "\<exists>ps. body r = Dict [(''success'', Bool True),
                             (''photos'', List (map Dict (map (photo_view x) ps)))]"
  using assms
  by (auto simp: login_required_def get_photos_def photos_ok_def jsonify_def Let_def
      unauthorized_def database_error_def
      split: option.splits sum.splits if_splits)

text \<open>
  Claim C8.  When an upload request answers 200, the dictionary under \<^verbatim>\<open>photo\<close> in the
  body has exactly the keys \<^verbatim>\<open>_id\<close>, \<^verbatim>\<open>src\<close>, \<^verbatim>\<open>title\<close> and \<^verbatim>\<open>date\<close>; when a list
  request answers 200, so has every element of the list under \<^verbatim>\<open>photos\<close>.  The keys
  \<^verbatim>\<open>user_id\<close>, \<^verbatim>\<open>public_id\<close> and \<^verbatim>\<open>uploaded_at\<close> are in none of them.
\<close>

theorem views_omit_internal_fields:
  "(\<forall>r s' w'. dispatch x (Upload files) s w = (Inr r, s', w') \<and> status r = 200
      \<longrightarrow> (\<exists>view. body r = Dict [(''success'', Bool True),
                                   (''message'', Str ''Photo uploaded successfully.''),
                                   (''photo'', Dict view)]
                  \<and> dict_keys view = {''_id'', ''src'', ''title'', ''date''}
                  \<and> ''user_id'' \<notin> dict_keys view
                  \<and> ''public_id'' \<notin> dict_keys view
                  \<and> ''uploaded_at'' \<notin> dict_keys view))
   \<and> (\<forall>r s' w'. dispatch x GetPhotos s w = (Inr r, s', w') \<and> status r = 200
      \<longrightarrow> (\<exists>views. body r = Dict [(''success'', Bool True),
                                    (''photos'', List (map Dict views))]
                  \<and> (\<forall>view \<in> set views.
                        dict_keys view = {''_id'', ''src'', ''title'', ''date''}
                        \<and> ''user_id'' \<notin> dict_keys view
                        \<and> ''public_id'' \<notin> dict_keys view
                        \<and> ''uploaded_at'' \<notin> dict_keys view)))"
proof (intro conjI allI impI)
  fix r s' w'
  assume "dispatch x (Upload files) s w = (Inr r, s', w') \<and> status r = 200"
  then obtain p where "body r = Dict [(''success'', Bool True),
                            (''message'', Str ''Photo uploaded successfully.''),
                            (''photo'', Dict (uploaded_photo_view x p))]"
    using upload_success_body by blast
  then show "\<exists>view. body r = Dict [(''success'', Bool True),
                                   (''message'', Str ''Photo uploaded successfully.''),
                                   (''photo'', Dict view)]
                  \<and> dict_keys view = {''_id'', ''src'', ''title'', ''date''}
                  \<and> ''user_id'' \<notin> dict_keys view
                  \<and> ''public_id'' \<notin> dict_keys view
                  \<and> ''uploaded_at'' \<notin> dict_keys view"
    using dict_keys_uploaded_photo_view [of x p]
      internal_keys_absent [of "uploaded_photo_view x p"] by blast
next
  fix r s' w'
  assume "dispatch x GetPhotos s w = (Inr r, s', w') \<and> status r = 200"
  then obtain ps where b: "body r = Dict [(''success'', Bool True),
                             (''photos'', List (map Dict (map (photo_view x) ps)))]"
    using list_success_body by blast
  have "\<forall>view \<in> set (map (photo_view x) ps).
                        dict_keys view = {''_id'', ''src'', ''title'', ''date''}
                        \<and> ''user_id'' \<notin> dict_keys view
                        \<and> ''public_id'' \<notin> dict_keys view
                        \<and> ''uploaded_at'' \<notin> dict_keys view"
    using dict_keys_photo_view internal_keys_absent by auto
  with b show "\<exists>views. body r = Dict [(''success'', Bool True),
                                    (''photos'', List (map Dict views))]
                  \<and> (\<forall>view \<in> set views.
                        dict_keys view = {''_id'', ''src'', ''title'', ''date''}
                        \<and> ''user_id'' \<notin> dict_keys view
                        \<and> ''public_id'' \<notin> dict_keys view
                        \<and> ''uploaded_at'' \<notin> dict_keys view)"
    by blast
qed

lemma upload_photo_success:
  assumes "db w = Some d"
    and "s_user_id s = Some user_id"
    and "s_username s = Some name"
    and "filename f \<noteq> []"
    and "uploader_upload x (cloud w) f (''cloudgallery_user_'' @ user_id) = (Inr up, c)"
    and "ObjectId x user_id = Inr u"
  shows "dispatch x (Upload (Some f)) s w =
           (Inr (upload_ok (uploaded_photo_view x
                   \<lparr>p_id = new_ObjectId (map p_id (photos d)), p_user_id = u,
                    p_src = secure_url up, p_public_id = public_id up,
                    p_title = filename f, p_date = now_date x, p_uploaded_at = utcnow x\<rparr>)),
            s,
            w\<lparr>cloud := c,
              db := Some (d\<lparr>photos := photos d @
                 [\<lparr>p_id = new_ObjectId (map p_id (photos d)), p_user_id = u,
                   p_src = secure_url up, p_public_id = public_id up,
                   p_title = filename f, p_date = now_date x, p_uploaded_at = utcnow x\<rparr>]\<rparr>)\<rparr>)"
  using assms by (simp add: login_required_def upload_photo_def Let_def)

lemma status_upload_ok: "status (upload_ok v) = 200"
  by (simp add: upload_ok_def jsonify_def)

lemma status_photos_ok: "status (photos_ok vs) = 200"
  by (simp add: photos_ok_def jsonify_def)

lemma demo_upload_online:
  "uploader_upload demo_ext (cloud (demo_world True)) f folder =
     (Inr \<lparr>secure_url = ''https://res.cloudinary.com/demo/'' @ folder @ ''/'' @ filename f,
           public_id = folder @ ''/'' @ filename f\<rparr>,
      (True, snd (cloud (demo_world True)) @ [(folder @ ''/'' @ filename f, content f)]))"
  by (simp add: demo_upload_def)

theorem views_omit_internal_fields_witness:
  "(\<exists>r s' w'. dispatch demo_ext (Upload (Some \<lparr>filename = ''c.png'', content = ''PNG3''\<rparr>))
              alice_session (demo_world True) = (Inr r, s', w')
        \<and> status r = 200
        \<and> (\<exists>view. body r = Dict [(''success'', Bool True),
                                   (''message'', Str ''Photo uploaded successfully.''),
                                   (''photo'', Dict view)]
                  \<and> dict_keys view = {''_id'', ''src'', ''title'', ''date''}
                  \<and> ''user_id'' \<notin> dict_keys view
                  \<and> ''public_id'' \<notin> dict_keys view
                  \<and> ''uploaded_at'' \<notin> dict_keys view))
   \<and> (\<exists>r s' w'. dispatch demo_ext GetPhotos alice_session (demo_world True) = (Inr r, s', w')
        \<and> status r = 200
        \<and> (\<exists>views. body r = Dict [(''success'', Bool True),
                                    (''photos'', List (map Dict views))]
                  \<and> (\<forall>view \<in> set views.
                        dict_keys view = {''_id'', ''src'', ''title'', ''date''}
                        \<and> ''user_id'' \<notin> dict_keys view
                        \<and> ''public_id'' \<notin> dict_keys view
                        \<and> ''uploaded_at'' \<notin> dict_keys view)))"
proof -
  let ?f = "\<lparr>filename = ''c.png'', content = ''PNG3''\<rparr>"
  note inst = views_omit_internal_fields [of demo_ext "Some ?f" alice_session "demo_world True"]
  have h1: "db (demo_world True) = Some demo_db" by simp
  have h4: "filename ?f \<noteq> []" by simp
  have h6: "ObjectId demo_ext ''00000000000000000000000a'' = Inr (OID 10)" by simp
  note u = upload_photo_success [OF h1 demo_sessions(1) demo_sessions(2) h4
      demo_upload_online h6]
  note 1 = inst [THEN conjunct1, rule_format, OF conjI, OF u status_upload_ok]
  note A0 = conjI [OF u conjI [OF status_upload_ok 1]]
  have A: "\<exists>r s' w'. dispatch demo_ext (Upload (Some ?f)) alice_session (demo_world True)
             = (Inr r, s', w')
        \<and> status r = 200
        \<and> (\<exists>view. body r = Dict [(''success'', Bool True),
                                   (''message'', Str ''Photo uploaded successfully.''),
                                   (''photo'', Dict view)]
                  \<and> dict_keys view = {''_id'', ''src'', ''title'', ''date''}
                  \<and> ''user_id'' \<notin> dict_keys view
                  \<and> ''public_id'' \<notin> dict_keys view
                  \<and> ''uploaded_at'' \<notin> dict_keys view)"
    by (rule exI, rule exI, rule exI, rule A0)
  have l: "dispatch demo_ext GetPhotos alice_session (demo_world True)
      = (Inr (photos_ok (map (photo_view demo_ext) (find_photos_sorted (photos demo_db) (OID 10)))),
         alice_session, demo_world True)"
    by (simp add: login_required_def get_photos_def)
  note 2 = inst [THEN conjunct2, rule_format, OF conjI, OF l status_photos_ok]
  note B0 = conjI [OF l conjI [OF status_photos_ok 2]]
  have B: "\<exists>r s' w'. dispatch demo_ext GetPhotos alice_session (demo_world True) = (Inr r, s', w')
        \<and> status r = 200
        \<and> (\<exists>views. body r = Dict [(''success'', Bool True),
                                    (''photos'', List (map Dict views))]
                  \<and> (\<forall>view \<in> set views.
                        dict_keys view = {''_id'', ''src'', ''title'', ''date''}
                        \<and> ''user_id'' \<notin> dict_keys view
                        \<and> ''public_id'' \<notin> dict_keys view
                        \<and> ''uploaded_at'' \<notin> dict_keys view))"
    by (rule exI, rule exI, rule exI, rule B0)
  from A B show ?thesis by (rule conjI)
qed

section \<open>The session status\<close>

text \<open>
  Only \<open>login\<close> and \<open>logout\<close> write the session: the first sets both keys, the
  second removes both.  So every session a client can hold is well formed.
\<close>

lemma register_keeps_session: "fst (snd (register x c s w)) = s"
  by (auto simp: register_def Let_def split: option.splits sum.splits)

lemma upload_keeps_session: "fst (snd (upload_photo x f s w)) = s"
  by (auto simp: upload_photo_def Let_def split: option.splits sum.splits prod.splits)

lemma get_photos_keeps_session: "fst (snd (get_photos x s w)) = s"
  by (auto simp: get_photos_def Let_def split: option.splits sum.splits)

lemma delete_keeps_session: "fst (snd (delete_photo x i s w)) = s"
  by (auto simp: delete_photo_def split: option.splits sum.splits prod.splits)

lemma static_keeps_session: "fst (snd (send_from_directory p s w)) = s"
  by (auto simp: send_from_directory_def split: option.splits)

lemma get_status_keeps_session: "fst (snd (get_status s w)) = s"
  by (auto simp: get_status_def split: option.splits)

lemma login_session_ok: "session_ok s \<Longrightarrow> session_ok (fst (snd (login x c s w)))"
  by (auto simp: login_def session_ok_def split: option.splits sum.splits bool.splits)

lemma dispatch_session_ok:
  assumes "session_ok s"
  shows "session_ok (fst (snd (dispatch x r s w)))"
proof (cases r)
  case (Register c)
  with assms show ?thesis by (simp add: register_keeps_session)
next
  case (Login c)
  with assms show ?thesis by (simp add: login_session_ok)
next
  case Logout
  then show ?thesis
    using assms by (simp add: login_required_def logout_def session_ok_def)
next
  case Status
  with assms show ?thesis by (simp add: get_status_keeps_session)
next
  case (Upload f)
  with assms show ?thesis by (simp add: login_required_def upload_keeps_session)
next
  case GetPhotos
  with assms show ?thesis by (simp add: login_required_def get_photos_keeps_session)
next
  case (DeletePhoto i)
  with assms show ?thesis by (simp add: login_required_def delete_keeps_session)
next
  case Index
  with assms show ?thesis by (simp add: index_def static_keeps_session)
next
  case (Static p)
  with assms show ?thesis by (simp add: serve_static_def static_keeps_session)
qed

lemma session_after_ok: "session_ok s \<Longrightarrow> session_ok (session_after steps s)"
proof (induction steps arbitrary: s)
  case Nil
  then show ?case by simp
next
  case (Cons step steps)
  obtain x r w where "step = (x, r, w)"
    by (cases step) auto
  with Cons show ?case
    by (simp add: dispatch_session_ok)
qed

text \<open>
  Claim C9.  In every session that a client reaches from the anonymous session by
  requests to this application, the status request raises nothing and returns the session
  and the world as they were: it answers \<^verbatim>\<open>isLoggedIn\<close> false when the session carries
  no user identifier, and \<^verbatim>\<open>isLoggedIn\<close> true with the user name otherwise.
\<close>

theorem status_is_a_pure_read:
  assumes "s = session_after steps anonymous"
  shows "(s_user_id s = None
          \<and> dispatch x Status s w =
              (Inr \<lparr>status = 200, body = Dict [(''isLoggedIn'', Bool False)]\<rparr>, s, w))
       \<or> (\<exists>user_id name.
            s_user_id s = Some user_id \<and> s_username s = Some name
            \<and> dispatch x Status s w =
                (Inr \<lparr>status = 200,
                      body = Dict [(''isLoggedIn'', Bool True), (''username'', Str name)]\<rparr>,
                 s, w))"
proof -
  have "session_ok anonymous"
    by (simp add: session_ok_def anonymous_def)
  with assms have ok: "session_ok s"
    by (simp add: session_after_ok)
  show ?thesis
  proof (cases "s_user_id s")
    case None
    then show ?thesis by (simp add: get_status_def jsonify_def)
  next
    case (Some user_id)
    with ok obtain name where "s_username s = Some name"
      by (auto simp: session_ok_def)
    with Some show ?thesis by (simp add: get_status_def jsonify_def)
  qed
qed

lemma demo_login_alice:
  "session_after
     [(demo_ext, Login \<lparr>j_username = Some ''alice'', j_password = Some ''pw1''\<rparr>, demo_world True)]
     anonymous
   = \<lparr>s_user_id = Some (demo_str_ObjectId (OID 10)), s_username = Some ''alice''\<rparr>"
  by (simp add: login_def find_one_user_def demo_check_password_hash_def alice_def
      anonymous_def)

theorem status_is_a_pure_read_witness:
  "dispatch demo_ext Status
     (session_after
        [(demo_ext, Login \<lparr>j_username = Some ''alice'', j_password = Some ''pw1''\<rparr>,
          demo_world True)] anonymous) (demo_world False)
   = (Inr \<lparr>status = 200,
           body = Dict [(''isLoggedIn'', Bool True), (''username'', Str ''alice'')]\<rparr>,
      \<lparr>s_user_id = Some (demo_str_ObjectId (OID 10)), s_username = Some ''alice''\<rparr>,
      demo_world False)
   \<and> dispatch demo_ext Status (session_after [] anonymous) (demo_world True) =
     (Inr \<lparr>status = 200, body = Dict [(''isLoggedIn'', Bool False)]\<rparr>,
      anonymous, demo_world True)"
proof -
  let ?steps = "[(demo_ext, Login \<lparr>j_username = Some ''alice'', j_password = Some ''pw1''\<rparr>,
          demo_world True)]"
  have 1: "dispatch demo_ext Status (session_after ?steps anonymous) (demo_world False)
   = (Inr \<lparr>status = 200,
           body = Dict [(''isLoggedIn'', Bool True), (''username'', Str ''alice'')]\<rparr>,
      \<lparr>s_user_id = Some (demo_str_ObjectId (OID 10)), s_username = Some ''alice''\<rparr>,
      demo_world False)"
    using status_is_a_pure_read [OF refl, of ?steps demo_ext "demo_world False"]
    unfolding demo_login_alice by simp
  have 2: "dispatch demo_ext Status (session_after [] anonymous) (demo_world True) =
     (Inr \<lparr>status = 200, body = Dict [(''isLoggedIn'', Bool False)]\<rparr>,
      anonymous, demo_world True)"
    using status_is_a_pure_read [OF refl, of "[]" demo_ext "demo_world True"]
    by simp
  from 1 2 show ?thesis by (rule conjI)
qed

section \<open>Delete with a malformed identifier\<close>

text \<open>
  Claim C10.  When \<^verbatim>\<open>ObjectId(photo_id)\<close> raises, the delete request of a logged-in
  client is answered with status 500, not with the 404 response, and the session and
  the world are returned as they were.  With a connected database and a user name in
  the session the answer is the JSON body of the \<^verbatim>\<open>except\<close> block, carrying the
  text of the exception.
\<close>

theorem malformed_photo_id_gives_500:
  assumes "ObjectId x photo_id = Inl msg"
    and "s_user_id s = Some user_id"
  shows "\<exists>r. dispatch x (DeletePhoto photo_id) s w = (r, s, w)
           \<and> status (flask_response r) = 500
           \<and> r \<noteq> Inr not_found_or_unauthorized
           \<and> (\<forall>d name. db w = Some d \<and> s_username s = Some name
                \<longrightarrow> r = Inr \<lparr>status = 500,
                              body = Dict [(''success'', Bool False),
                                           (''message'', Str (''Deletion failed: '' @ msg))]\<rparr>)"
proof (cases "db w")
  case None
  with assms show ?thesis
    by (simp add: login_required_def delete_photo_def database_error_def flask_response_def
        not_found_or_unauthorized_def jsonify_def)
next
  case (Some d)
  show ?thesis
  proof (cases "s_username s")
    case None
    with Some assms show ?thesis
      by (simp add: login_required_def delete_photo_def delete_photo_try_def flask_response_def)
  next
    case (Some name)
    with \<open>db w = Some d\<close> assms show ?thesis
      by (simp add: login_required_def delete_photo_def delete_photo_try_def flask_response_def
          deletion_failed_def not_found_or_unauthorized_def jsonify_def)
  qed
qed

theorem malformed_photo_id_gives_500_witness:
  "ObjectId demo_ext ''xyz'' = Inl (invalid_id ''xyz'')
   \<and> dispatch demo_ext (DeletePhoto ''xyz'') alice_session (demo_world True)
     = (Inr (deletion_failed (invalid_id ''xyz'')), alice_session, demo_world True)
   \<and> status (deletion_failed (invalid_id ''xyz'')) = 500"
proof -
  have h: "ObjectId demo_ext ''xyz'' = Inl (invalid_id ''xyz'')"
    by (simp add: demo_ObjectId_def)
  from malformed_photo_id_gives_500 [OF h demo_sessions(1), of "demo_world True"]
  obtain r where r: "dispatch demo_ext (DeletePhoto ''xyz'') alice_session (demo_world True)
                       = (r, alice_session, demo_world True)"
      "\<forall>d name. db (demo_world True) = Some d \<and> s_username alice_session = Some name
                \<longrightarrow> r = Inr \<lparr>status = 500,
                              body = Dict [(''success'', Bool False),
                                           (''message'',
                                            Str (''Deletion failed: '' @ invalid_id ''xyz''))]\<rparr>"
    by (elim exE conjE)
  from r(2) have "r = Inr (deletion_failed (invalid_id ''xyz''))"
    by (simp add: deletion_failed_def jsonify_def)
  with r(1) h show ?thesis
    by (simp add: deletion_failed_def jsonify_def)
qed

section \<open>Photo identifiers stay unique\<close>

text \<open>
  The uniqueness of \<^verbatim>\<open>_id\<close> in the photo collection, which the theorems on isolation
  and on delete assume, is kept by every request.
\<close>

lemma set_delete_one: "set (delete_one P xs) \<subseteq> set xs"
  by (induction xs) auto

lemma distinct_map_delete_one:
  "distinct (map f xs) \<Longrightarrow> distinct (map f (delete_one P xs))"
proof (induction xs)
  case Nil
  then show ?case by simp
next
  case (Cons a xs)
  then show ?case
    using set_delete_one [of P xs] by auto
qed

lemma register_keeps_photos:
  "db w = Some d \<Longrightarrow> db (snd (snd (register x c s w))) = Some d'
     \<Longrightarrow> photos d' = photos d"
  by (auto simp: register_def Let_def split: option.splits sum.splits if_splits)

lemma login_keeps_world: "snd (snd (login x c s w)) = w"
  by (auto simp: login_def split: option.splits sum.splits bool.splits)

lemma upload_photo_ids:
  assumes "db w = Some d" and "distinct (map p_id (photos d))"
    and "db (snd (snd (upload_photo x f s w))) = Some d'"
  shows "distinct (map p_id (photos d'))"
  using assms new_ObjectId_fresh [of "map p_id (photos d)"]
  by (auto simp: upload_photo_def Let_def split: option.splits sum.splits prod.splits if_splits)

lemma get_photos_keeps_world: "snd (snd (get_photos x s w)) = w"
  by (auto simp: get_photos_def Let_def split: option.splits sum.splits)

lemma delete_photo_ids:
  assumes "db w = Some d" and "distinct (map p_id (photos d))"
    and "db (snd (snd (delete_photo x i s w))) = Some d'"
  shows "distinct (map p_id (photos d'))"
  using assms distinct_map_delete_one [of p_id "photos d"]
  by (auto simp: delete_photo_def delete_photo_try_def
      split: option.splits sum.splits prod.splits if_splits)

lemma static_keeps_world: "snd (snd (send_from_directory p s w)) = w"
  by (auto simp: send_from_directory_def split: option.splits)

lemma photo_ids_stay_distinct:
  assumes "db w = Some d" and "distinct (map p_id (photos d))"
    and "db (snd (snd (dispatch x r s w))) = Some d'"
  shows "distinct (map p_id (photos d'))"
proof (cases r)
  case (Register c)
  with assms show ?thesis using register_keeps_photos [of w d x c s d'] by simp
next
  case (Login c)
  with assms show ?thesis by (simp add: login_keeps_world)
next
  case Logout
  with assms show ?thesis by (auto simp: login_required_def logout_def split: if_splits)
next
  case Status
  with assms show ?thesis by (auto simp: get_status_def split: option.splits)
next
  case (Upload f)
  with assms show ?thesis
    using upload_photo_ids [of w d x f s d']
    by (auto simp: login_required_def split: if_splits)
next
  case GetPhotos
  with assms show ?thesis
    by (auto simp: login_required_def get_photos_keeps_world split: if_splits)
next
  case (DeletePhoto i)
  with assms show ?thesis
    using delete_photo_ids [of w d x i s d']
    by (auto simp: login_required_def split: if_splits)
next
  case Index
  with assms show ?thesis by (simp add: index_def static_keeps_world)
next
  case (Static p)
  with assms show ?thesis by (simp add: serve_static_def static_keeps_world)
qed

section \<open>Without a database connection\<close>

text \<open>
  When the connection test at start-up failed, every data route answers 500 with the
  message \<^verbatim>\<open>Database Error\<close> and touches nothing; the protected routes do so once
  the guard is passed.  The theorems above are about the connected case.
\<close>

lemma database_unavailable:
  assumes "db w = None"
  shows "dispatch x (Register c) s w = (Inr database_error, s, w)"
    and "dispatch x (Login c) s w = (Inr database_error, s, w)"
    and "s_user_id s = Some user_id \<Longrightarrow>
           dispatch x (Upload f) s w = (Inr database_error, s, w)"
    and "s_user_id s = Some user_id \<Longrightarrow>
           dispatch x GetPhotos s w = (Inr database_error, s, w)"
    and "s_user_id s = Some user_id \<Longrightarrow>
           dispatch x (DeletePhoto i) s w = (Inr database_error, s, w)"
  using assms
  by (simp_all add: register_def login_def login_required_def upload_photo_def get_photos_def
      delete_photo_def)

end
